theory Spec2Isabelle
  imports Main "HOL-Library.AList" "HOL-Library.Multiset"
begin

section \<open>Data model\<close>

text \<open>
  A calendar date (\<open>datetime.date\<close>) is its day ordinal, an \<open>int\<close>: subtracting two dates
  gives the number of days between them, and \<open>d - timedelta(days=1)\<close> is \<open>d - 1\<close>.
  A parsed timestamp is a calendar date with a time of day.
\<close>

record timestamp =
  ts_date :: int
  ts_time :: nat

text \<open>
  A cell of a pandas column: a missing value (\<open>NaN\<close>, which is also how \<open>NaT\<close> is
  represented: \<open>dropna\<close> treats both alike), the text of a CSV field, or a parsed timestamp.
\<close>

datatype cell = NaN | Text string | Stamp timestamp

text \<open>
  A data frame: the length of its index (the number of rows) and its columns in file
  order, each a name with its cells.
\<close>

record dataframe =
  index :: nat
  columns :: "(string \<times> cell list) list"

datatype exn_class =
  FileNotFoundError | EmptyDataError | ValueError | TypeError | KeyError | AttributeError
  | OtherError

datatype exn = Exn exn_class string

fun exn_str :: "exn \<Rightarrow> string" where
  "exn_str (Exn c m) = m"

text \<open>What \<open>pd.read_csv\<close> does on the file: it raises, or it returns a frame.\<close>

datatype csv_outcome = Raises exn | Returns dataframe

text \<open>
  The record store as the two functions see it: \<open>os.path.exists\<close>, \<open>os.path.getsize\<close>
  and the outcome of \<open>pd.read_csv\<close> on the path.
\<close>

record store =
  path_exists :: bool
  path_size :: nat
  read_csv :: csv_outcome

datatype message = St_error string | St_warning string

text \<open>
  One stage of a function body: an exception leaves the function (\<open>Raise\<close>), a
  \<open>return\<close> statement ends it with the messages shown so far and a value, or control
  reaches the next statement with a value.
\<close>

datatype ('r, 'a) step = Raise exn | Return "message list" 'r | Next 'a

text \<open>The figure drawn by \<open>calplot.calplot\<close>, identified with the series it is drawn from.\<close>

datatype figure = Calplot "(timestamp \<times> nat) list"

section \<open>The pandas operations used\<close>

text \<open>\<open>df.empty\<close>: some axis has length 0.\<close>

definition df_empty :: "dataframe \<Rightarrow> bool" where
  "df_empty df = (index df = 0 \<or> columns df = [])"

text \<open>
  The libraries are not part of the repository: what their calls do is a parameter of the
  model, and nothing is assumed about it.
  \<^item> \<open>datetime_raise\<close> is \<open>pd.to_datetime(series, errors='raise')\<close>: the converted column,
    or the message of the \<open>ValueError\<close> it raises.
  \<^item> \<open>datetime_coerce\<close> is \<open>pd.to_datetime(series, errors='coerce')\<close>. It decides on the
    whole column which values convert (pandas fixes one format for the column) and leaves
    the others missing; it may also raise, and it may return a column that has no
    datetime type, in which some cell is neither a timestamp nor missing.
  \<^item> \<open>index_raises\<close> is the exception, if any, of \<open>pd.to_datetime(daily_counts.index)\<close>
    in line 141; when there is none, each date becomes the timestamp of its midnight.
  \<^item> \<open>calplot_raises\<close> is the exception, if any, of \<open>calplot.calplot\<close> in line 147.
\<close>

record pandas =
  datetime_raise :: "cell list \<Rightarrow> string + cell list"
  datetime_coerce :: "cell list \<Rightarrow> exn + cell list"
  index_raises :: "int list \<Rightarrow> exn option"
  calplot_raises :: "(timestamp \<times> nat) list \<Rightarrow> exn option"

datatype errors_mode = ErrorsRaise | ErrorsCoerce

fun to_datetime :: "pandas \<Rightarrow> cell list \<Rightarrow> errors_mode \<Rightarrow> exn + cell list" where
  "to_datetime p col ErrorsRaise =
     (case datetime_raise p col of
        Inl m \<Rightarrow> Inl (Exn ValueError m)
      | Inr parsed \<Rightarrow> Inr parsed)"
| "to_datetime p col ErrorsCoerce = datetime_coerce p col"

text \<open>A column has a datetime type when each of its cells is a timestamp or missing.\<close>

fun datetimelike :: "cell \<Rightarrow> bool" where
  "datetimelike NaN = True"
| "datetimelike (Stamp t) = True"
| "datetimelike (Text s) = False"

text \<open>\<open>df[name]\<close>: the column of that name, \<open>KeyError\<close> when there is none.\<close>

definition getitem :: "dataframe \<Rightarrow> string \<Rightarrow> exn + cell list" where
  "getitem df name =
     (case map_of (columns df) name of
        None \<Rightarrow> Inl (Exn KeyError name)
      | Some col \<Rightarrow> Inr col)"

text \<open>
  \<open>df[name] = col\<close>: replaces the column of that name where it stands, or appends a new
  column. Both functions assign a series converted from a column of the same frame, which
  has the frame's index.
\<close>

definition setitem :: "dataframe \<Rightarrow> string \<Rightarrow> cell list \<Rightarrow> dataframe" where
  "setitem df name col = df\<lparr>columns := AList.update name col (columns df)\<rparr>"

text \<open>
  \<open>df.dropna(subset=[name], inplace=True)\<close>: keeps the rows whose cell in that column is
  not missing.
\<close>

definition select_rows :: "bool list \<Rightarrow> 'a list \<Rightarrow> 'a list" where
  "select_rows keep col = map snd (filter fst (zip keep col))"

definition dropna :: "dataframe \<Rightarrow> string \<Rightarrow> exn + dataframe" where
  "dropna df name =
     (case map_of (columns df) name of
        None \<Rightarrow> Inl (Exn KeyError name)
      | Some col \<Rightarrow>
          let keep = map (\<lambda>c. c \<noteq> NaN) col
          in Inr \<lparr>index = length (filter id keep),
                  columns = map (\<lambda>(n, c). (n, select_rows keep c)) (columns df)\<rparr>)"

text \<open>
  \<open>series.dt.date\<close>: the calendar date of every timestamp. The accessor is used after
  \<open>dropna\<close> only, when no cell is missing; on a column that has no datetime type it is
  \<open>AttributeError\<close>.
\<close>

fun is_stamp :: "cell \<Rightarrow> bool" where
  "is_stamp (Stamp t) = True"
| "is_stamp c = False"

fun stamp_date :: "cell \<Rightarrow> int" where
  "stamp_date (Stamp t) = ts_date t"
| "stamp_date c = 0"

definition dt_date :: "cell list \<Rightarrow> exn + int list" where
  "dt_date col =
     (if list_all is_stamp col then Inr (map stamp_date col)
      else Inl (Exn AttributeError ''Can only use .dt accessor with datetimelike values''))"

text \<open>\<open>series.unique()\<close>: the distinct values in order of first appearance.\<close>

fun unique :: "'a list \<Rightarrow> 'a list" where
  "unique [] = []"
| "unique (x # xs) = x # unique (filter (\<lambda>y. y \<noteq> x) xs)"

text \<open>
  \<open>series.value_counts()\<close>: each distinct value with its number of occurrences, the most
  frequent first; \<open>sort_index()\<close> then orders the entries by value, ascending.
\<close>

definition value_counts :: "int list \<Rightarrow> (int \<times> nat) list" where
  "value_counts ds =
     sort_key (\<lambda>(d, c). - int c) (map (\<lambda>d. (d, count_list ds d)) (unique ds))"

definition sort_index :: "(int \<times> nat) list \<Rightarrow> (int \<times> nat) list" where
  "sort_index vc = sort_key fst vc"

section \<open>calculate_streak\<close>

text \<open>
  Lines 10 to 31: reading the store. Lines 12 to 16 rebuild the path from its directory and
  file name and have no other effect.
\<close>

definition streak_read :: "store \<Rightarrow> (int, dataframe) step" where
  "streak_read s =
     (if \<not> path_exists s \<or> path_size s = 0 then Return [] 0
      else case read_csv s of
        Raises (Exn FileNotFoundError m) \<Rightarrow> Return [] 0
      | Raises (Exn EmptyDataError m) \<Rightarrow> Return [] 0
      | Raises (Exn c m) \<Rightarrow>
          Return [St_error (''Error reading mood data for streak: '' @ m)] 0
      | Returns df \<Rightarrow> if df_empty df then Return [] 0 else Next df)"

text \<open>Lines 33 to 51: which column holds the timestamps.\<close>

definition streak_resolve :: "pandas \<Rightarrow> dataframe \<Rightarrow> (int, string) step" where
  "streak_resolve p df =
     (case
        (if ''timestamp'' \<in> set (map fst (columns df)) then Next ''timestamp''
         else if ''Date and Time'' \<in> set (map fst (columns df)) then Next ''Date and Time''
         else case columns df of
           (name0, col0) # rest \<Rightarrow>
             (case to_datetime p col0 ErrorsRaise of
                Inr parsed \<Rightarrow> Next name0
              | Inl (Exn c m) \<Rightarrow>
                  if c = ValueError \<or> c = TypeError \<or> c = AttributeError
                  then Return [St_warning
                         ''Streak: Could not identify a suitable timestamp column.''] 0
                  else Raise (Exn c m))
         | [] \<Rightarrow> Return [St_warning ''Streak: CSV file has no columns.''] 0)
      of
        Next timestamp_col_name \<Rightarrow>
          if timestamp_col_name = []
          then Return [St_warning ''Streak: Timestamp column could not be determined.''] 0
          else Next timestamp_col_name
      | Return ms r \<Rightarrow> Return ms r
      | Raise e \<Rightarrow> Raise e)"

text \<open>Lines 53 to 61: parsing the column and dropping the rows that do not parse.\<close>

definition streak_parse :: "pandas \<Rightarrow> string \<Rightarrow> dataframe \<Rightarrow> (int, dataframe) step" where
  "streak_parse p timestamp_col_name df =
     (case (case getitem df timestamp_col_name of
              Inl e \<Rightarrow> Inl e
            | Inr col \<Rightarrow> to_datetime p col ErrorsCoerce)
      of
        Inl e \<Rightarrow>
          Return [St_warning (''Streak: Error parsing timestamp column '' @ [CHR 0x27]
                    @ timestamp_col_name @ [CHR 0x27] @ '': '' @ exn_str e)] 0
      | Inr parsed \<Rightarrow>
          (case dropna (setitem df ''parsed_timestamp'' parsed) ''parsed_timestamp'' of
             Inl e \<Rightarrow> Raise e
           | Inr df' \<Rightarrow> if df_empty df' then Return [] 0 else Next df'))"

text \<open>
  Lines 76 to 81: the loop over \<open>unique_dates[1:]\<close>, with \<open>last_streak_date\<close> and
  \<open>current_streak\<close> as its state; \<open>break\<close> returns the count reached.
\<close>

fun streak_loop :: "int \<Rightarrow> int list \<Rightarrow> int \<Rightarrow> int" where
  "streak_loop last_streak_date [] current_streak = current_streak"
| "streak_loop last_streak_date (d # ds) current_streak =
     (if last_streak_date - d = 1 then streak_loop d ds (current_streak + 1)
      else current_streak)"

text \<open>Lines 64 to 83, on the dates of the rows kept; \<open>today\<close> is \<open>date.today()\<close>.\<close>

definition current_streak :: "int \<Rightarrow> int list \<Rightarrow> int" where
  "current_streak today dates =
     (let unique_dates = rev (sort (unique dates))
      in case unique_dates of
           [] \<Rightarrow> 0
         | d0 # rest \<Rightarrow>
             if d0 = today \<or> d0 = today - 1 then streak_loop d0 rest 1 else 0)"

text \<open>
  Line 63: the dates of the parsed timestamps. The source stores them in \<open>df['date']\<close>
  and reads that column back in line 64.
\<close>

definition streak_dates :: "dataframe \<Rightarrow> exn + int list" where
  "streak_dates df =
     (case getitem df ''parsed_timestamp'' of
        Inl e \<Rightarrow> Inl e
      | Inr col \<Rightarrow> dt_date col)"

definition streak_frame :: "pandas \<Rightarrow> int \<Rightarrow> dataframe \<Rightarrow> exn + message list \<times> int" where
  "streak_frame p today df =
     (case streak_resolve p df of
        Raise e \<Rightarrow> Inl e
      | Return ms r \<Rightarrow> Inr (ms, r)
      | Next timestamp_col_name \<Rightarrow>
          (case streak_parse p timestamp_col_name df of
             Raise e \<Rightarrow> Inl e
           | Return ms r \<Rightarrow> Inr (ms, r)
           | Next df' \<Rightarrow>
               (case streak_dates df' of
                  Inl e \<Rightarrow> Inl e
                | Inr dates \<Rightarrow> Inr ([], current_streak today dates))))"

definition calculate_streak :: "pandas \<Rightarrow> int \<Rightarrow> store \<Rightarrow> exn + message list \<times> int" where
  "calculate_streak p today s =
     (case streak_read s of
        Raise e \<Rightarrow> Inl e
      | Return ms r \<Rightarrow> Inr (ms, r)
      | Next df \<Rightarrow> streak_frame p today df)"

section \<open>create_activity_heatmap\<close>

text \<open>Lines 88 to 105: reading the store; every exception is caught alike.\<close>

definition heatmap_read :: "store \<Rightarrow> (figure option, dataframe) step" where
  "heatmap_read s =
     (if \<not> path_exists s \<or> path_size s = 0 then Return [] None
      else case read_csv s of
        Raises e \<Rightarrow> Return [St_error (''Error reading data for heatmap: '' @ exn_str e)] None
      | Returns df \<Rightarrow> if df_empty df then Return [] None else Next df)"

text \<open>Lines 107 to 125.\<close>

definition heatmap_resolve :: "pandas \<Rightarrow> dataframe \<Rightarrow> (figure option, string) step" where
  "heatmap_resolve p df =
     (case
        (if ''timestamp'' \<in> set (map fst (columns df)) then Next ''timestamp''
         else if ''Date and Time'' \<in> set (map fst (columns df)) then Next ''Date and Time''
         else case columns df of
           (name0, col0) # rest \<Rightarrow>
             (case to_datetime p col0 ErrorsRaise of
                Inr parsed \<Rightarrow> Next name0
              | Inl (Exn c m) \<Rightarrow>
                  if c = ValueError \<or> c = TypeError \<or> c = AttributeError
                  then Return [St_warning
                         ''Heatmap: Could not identify a suitable timestamp column.''] None
                  else Raise (Exn c m))
         | [] \<Rightarrow> Return [St_warning ''Heatmap: CSV file has no columns.''] None)
      of
        Next timestamp_col_name \<Rightarrow>
          if timestamp_col_name = []
          then Return [St_warning ''Heatmap: Timestamp column could not be determined.''] None
          else Next timestamp_col_name
      | Return ms r \<Rightarrow> Return ms r
      | Raise e \<Rightarrow> Raise e)"

text \<open>Lines 127 to 135.\<close>

definition heatmap_parse ::
    "pandas \<Rightarrow> string \<Rightarrow> dataframe \<Rightarrow> (figure option, dataframe) step" where
  "heatmap_parse p timestamp_col_name df =
     (case (case getitem df timestamp_col_name of
              Inl e \<Rightarrow> Inl e
            | Inr col \<Rightarrow> to_datetime p col ErrorsCoerce)
      of
        Inl e \<Rightarrow>
          Return [St_warning (''Heatmap: Error parsing timestamp column '' @ [CHR 0x27]
                    @ timestamp_col_name @ [CHR 0x27] @ '': '' @ exn_str e)] None
      | Inr parsed \<Rightarrow>
          (case dropna (setitem df ''parsed_timestamp'' parsed) ''parsed_timestamp'' of
             Inl e \<Rightarrow> Raise e
           | Inr df' \<Rightarrow> if df_empty df' then Return [] None else Next df'))"

text \<open>Line 138, first half: \<open>df['parsed_timestamp'].dt.date\<close>.\<close>

definition heatmap_dates :: "dataframe \<Rightarrow> exn + int list" where
  "heatmap_dates df =
     (case getitem df ''parsed_timestamp'' of
        Inl e \<Rightarrow> Inl e
      | Inr col \<Rightarrow> dt_date col)"

text \<open>Line 138, second half: the entries per day.\<close>

definition daily_counts :: "int list \<Rightarrow> (int \<times> nat) list" where
  "daily_counts dates = sort_index (value_counts dates)"

text \<open>
  Lines 141 to 161: the counts indexed by the dates as timestamps (midnight), and the
  figure drawn from them unless there is nothing to draw. Neither call is inside a
  \<open>try\<close>: an exception of the index conversion or of \<open>calplot.calplot\<close> leaves the function.
\<close>

definition events :: "(int \<times> nat) list \<Rightarrow> (timestamp \<times> nat) list" where
  "events dc = map (\<lambda>(d, c). (\<lparr>ts_date = d, ts_time = 0\<rparr>, c)) dc"

definition heatmap_plot :: "pandas \<Rightarrow> int list \<Rightarrow> exn + figure option" where
  "heatmap_plot p dates =
     (let daily = daily_counts dates
      in case index_raises p (map fst daily) of
           Some e \<Rightarrow> Inl e
         | None \<Rightarrow>
             let ev = events daily
             in if ev = [] then Inr None
                else case calplot_raises p ev of
                       Some e \<Rightarrow> Inl e
                     | None \<Rightarrow> Inr (Some (Calplot ev)))"

definition heatmap_frame :: "pandas \<Rightarrow> dataframe \<Rightarrow> exn + message list \<times> figure option" where
  "heatmap_frame p df =
     (case heatmap_resolve p df of
        Raise e \<Rightarrow> Inl e
      | Return ms r \<Rightarrow> Inr (ms, r)
      | Next timestamp_col_name \<Rightarrow>
          (case heatmap_parse p timestamp_col_name df of
             Raise e \<Rightarrow> Inl e
           | Return ms r \<Rightarrow> Inr (ms, r)
           | Next df' \<Rightarrow>
               (case heatmap_dates df' of
                  Inl e \<Rightarrow> Inl e
                | Inr dates \<Rightarrow>
                    (case heatmap_plot p dates of
                       Inl e \<Rightarrow> Inl e
                     | Inr fig \<Rightarrow> Inr ([], fig)))))"

definition create_activity_heatmap ::
    "pandas \<Rightarrow> store \<Rightarrow> exn + message list \<times> figure option" where
  "create_activity_heatmap p s =
     (case heatmap_read s of
        Raise e \<Rightarrow> Inl e
      | Return ms r \<Rightarrow> Inr (ms, r)
      | Next df \<Rightarrow> heatmap_frame p df)"

section \<open>The specification's streak algorithm\<close>

text \<open>
  The algorithm of the specification, section 4.2, written from its six steps, to be
  compared with \<open>current_streak\<close>: step 5 walks the remaining dates with a cursor.
\<close>

fun spec_walk :: "int \<Rightarrow> int \<Rightarrow> int list \<Rightarrow> int" where
  "spec_walk cursor streak [] = streak"
| "spec_walk cursor streak (d # ds) =
     (if d = cursor - 1 then spec_walk d (streak + 1) ds else streak)"

definition spec_currentStreak :: "int list \<Rightarrow> int \<Rightarrow> int" where
  "spec_currentStreak dates today =
     (if dates = [] then 0
      else let distinct_desc = rev (sorted_list_of_set (set dates));
               most_recent = hd distinct_desc
           in if most_recent \<noteq> today \<and> most_recent \<noteq> today - 1 then 0
              else spec_walk most_recent 1 (tl distinct_desc))"

text \<open>
  The calendar date of a cell of the converted column, when the conversion gave it a
  timestamp: used to say which records a computation is about.
\<close>

fun cell_date :: "cell \<Rightarrow> int option" where
  "cell_date NaN = None"
| "cell_date (Stamp t) = Some (ts_date t)"
| "cell_date (Text s) = None"

section \<open>Example stores\<close>

text \<open>
  The inputs of the examples below. The day 738888 is 2024-01-03, the day 738887 is
  2024-01-02. \<open>example_pandas\<close> converts as pandas does from version 2.0 on: the first value
  fixes the format of the column, so that \<open>01/02/2024 09:00:00\<close> converts on its own but
  not after a value in ISO format; on timestamps with different UTC offsets it raises, as
  pandas 3 does. \<open>object_pandas\<close> returns timestamps with different UTC offsets as a column
  of Python objects, without a datetime type, as pandas 2.2 does.
\<close>

abbreviation plain_column :: "cell list" where
  "plain_column \<equiv>
     [Text ''2024-01-03 09:00:00'', Text ''not a date'', Text ''2024-01-02 18:30:00'',
      Text ''2024-01-03 21:15:00'']"

abbreviation two_formats_column :: "cell list" where
  "two_formats_column \<equiv>
     [Text ''2024-01-03 09:00:00'', Text ''01/02/2024 09:00:00'', Text ''not a date'']"

abbreviation mixed_offsets_column :: "cell list" where
  "mixed_offsets_column \<equiv>
     [Text ''2024-01-02 09:00:00+01:00'', Text ''not a date'', Text ''2024-01-03 09:00:00+02:00'']"

abbreviation example_pandas :: pandas where
  "example_pandas \<equiv>
     \<lparr>datetime_raise = (\<lambda>col.
        if col = [Text ''2024-01-03 09:00:00'', NaN]
        then Inr [Stamp \<lparr>ts_date = 738888, ts_time = 32400\<rparr>, NaN]
        else Inl ''Unknown datetime string format''),
      datetime_coerce = (\<lambda>col.
        if col = plain_column
        then Inr [Stamp \<lparr>ts_date = 738888, ts_time = 32400\<rparr>, NaN,
                  Stamp \<lparr>ts_date = 738887, ts_time = 66600\<rparr>,
                  Stamp \<lparr>ts_date = 738888, ts_time = 76500\<rparr>]
        else if col = two_formats_column
        then Inr [Stamp \<lparr>ts_date = 738888, ts_time = 32400\<rparr>, NaN, NaN]
        else if col = [Text ''01/02/2024 09:00:00'']
        then Inr [Stamp \<lparr>ts_date = 738887, ts_time = 32400\<rparr>]
        else if col = mixed_offsets_column
        then Inl (Exn ValueError ''Mixed timezones detected'')
        else Inr (map (\<lambda>c. NaN) col)),
      index_raises = (\<lambda>dates. None),
      calplot_raises = (\<lambda>ev. None)\<rparr>"

abbreviation object_pandas :: pandas where
  "object_pandas \<equiv>
     example_pandas\<lparr>datetime_coerce :=
       (\<lambda>col. Inr (map (\<lambda>c. if c = Text ''not a date'' then NaN else c) col))\<rparr>"

abbreviation example_store :: "string \<Rightarrow> cell list \<Rightarrow> store" where
  "example_store name col \<equiv>
     \<lparr>path_exists = True, path_size = 120,
      read_csv = Returns \<lparr>index = length col,
        columns = [(name, col), (''mood'', map (\<lambda>c. Text ''Happy'') col)]\<rparr>\<rparr>"

section \<open>Distinct dates in descending order\<close>

lemma set_unique: "set (unique xs) = set xs"
  by (induction xs rule: unique.induct) auto

lemma distinct_unique: "distinct (unique xs)"
  by (induction xs rule: unique.induct) (auto simp: set_unique)

lemma sort_unique: "sort (unique xs) = sorted_list_of_set (set xs)"
  by (metis distinct_unique set_unique distinct_sort sorted_sort set_sort sorted_list_of_set.idem_if_sorted_distinct)

lemma desc_sorted: "sorted_wrt (>) (rev (sort (unique (xs::int list))))"
  by (simp add: sort_unique sorted_wrt_rev)

lemma desc_set: "set (rev (sort (unique xs))) = set xs"
  by (simp add: set_unique)

lemma streak_loop_char:
  "sorted_wrt (>) (c # ds) \<Longrightarrow>
   \<exists>n\<ge>0. streak_loop c ds cur = cur + n \<and> (\<forall>k. 0 < k \<and> k \<le> n \<longrightarrow> c - k \<in> set ds)
      \<and> c - n - 1 \<notin> set ds"
proof (induction ds arbitrary: c cur)
  case Nil
  then show ?case by simp
next
  case (Cons d ds)
  from Cons.prems have lt: "d < c" and below: "\<forall>x\<in>set ds. x < d" and srt: "sorted_wrt (>) (d # ds)"
    by auto
  show ?case
  proof (cases "c - d = 1")
    case True
    from Cons.IH [OF srt, of "cur + 1"] obtain n where n: "0 \<le> n"
      "streak_loop d ds (cur + 1) = cur + 1 + n"
      "\<forall>k. 0 < k \<and> k \<le> n \<longrightarrow> d - k \<in> set ds" "d - n - 1 \<notin> set ds"
      by blast
    have a: "streak_loop c (d # ds) cur = cur + (n + 1)" using True n(2) by simp
    have b: "\<forall>k. 0 < k \<and> k \<le> n + 1 \<longrightarrow> c - k \<in> set (d # ds)"
    proof (intro allI impI)
      fix k assume k: "0 < k \<and> k \<le> n + 1"
      show "c - k \<in> set (d # ds)"
      proof (cases "k = 1")
        case True
        with \<open>c - d = 1\<close> show ?thesis by simp
      next
        case False
        with k have "0 < k - 1 \<and> k - 1 \<le> n" by simp
        with n(3) have "d - (k - 1) \<in> set ds" by blast
        moreover have "d - (k - 1) = c - k" using True by simp
        ultimately show ?thesis by simp
      qed
    qed
    have c: "c - (n + 1) - 1 \<notin> set (d # ds)"
      using n(1) n(4) True by (auto simp: algebra_simps)
    from a b c n(1) show ?thesis
      by (intro exI [of _ "n + 1"]) simp
  next
    case False
    with lt below have "c - 1 \<notin> set (d # ds)" by auto
    with False show ?thesis by (intro exI [of _ 0]) simp
  qed
qed

lemma desc_head:
  assumes "m \<in> set D" "\<forall>d\<in>set D. d \<le> (m::int)"
  shows "\<exists>rest. rev (sort (unique D)) = m # rest \<and> sorted_wrt (>) (m # rest) \<and> set (m # rest) = set D"
proof -
  let ?L = "rev (sort (unique D))"
  have s: "sorted_wrt (>) ?L" by (rule desc_sorted)
  have e: "set ?L = set D" by (rule desc_set)
  from assms(1) e have "?L \<noteq> []" by (metis empty_iff empty_set)
  then obtain m' rest where L: "?L = m' # rest" by (cases ?L) auto
  from L e have "m' \<in> set D" by (metis list.set_intros(1))
  with assms(2) have le: "m' \<le> m" by blast
  from assms(1) e L have "m = m' \<or> m \<in> set rest" by (metis set_ConsD)
  moreover from s L have "\<forall>x\<in>set rest. x < m'" by simp
  ultimately have "m = m'" using le by auto
  with L s e show ?thesis by (metis)
qed

lemma current_streak_max:
  assumes "m \<in> set D" "\<forall>d\<in>set D. d \<le> m"
  shows "\<exists>n\<ge>1. (\<forall>k. 0 \<le> k \<and> k < n \<longrightarrow> m - k \<in> set D) \<and> m - n \<notin> set D
     \<and> current_streak today D = (if m = today \<or> m = today - 1 then n else 0)"
proof -
  from desc_head [OF assms] obtain rest where L: "rev (sort (unique D)) = m # rest"
    and s: "sorted_wrt (>) (m # rest)" and e: "set (m # rest) = set D" by blast
  from streak_loop_char [OF s, of 1] obtain n0 where n0: "0 \<le> n0"
    "streak_loop m rest 1 = 1 + n0" "\<forall>k. 0 < k \<and> k \<le> n0 \<longrightarrow> m - k \<in> set rest"
    "m - n0 - 1 \<notin> set rest" by blast
  have a: "\<forall>k. 0 \<le> k \<and> k < n0 + 1 \<longrightarrow> m - k \<in> set D"
  proof (intro allI impI)
    fix k assume k: "0 \<le> k \<and> k < n0 + 1"
    show "m - k \<in> set D"
    proof (cases "k = 0")
      case True then show ?thesis using assms(1) by simp
    next
      case False
      with k n0(3) have "m - k \<in> set rest" by simp
      with e show ?thesis by auto
    qed
  qed
  have b: "m - (n0 + 1) \<notin> set D"
  proof -
    have "m - (n0 + 1) \<noteq> m" using n0(1) by simp
    moreover have "m - (n0 + 1) \<notin> set rest" using n0(4) by (simp add: algebra_simps)
    ultimately show ?thesis using e by (metis set_ConsD)
  qed
  have c: "current_streak today D = (if m = today \<or> m = today - 1 then n0 + 1 else 0)"
    using L n0(2) by (simp add: current_streak_def)
  from a b c n0(1) show ?thesis by (intro exI [of _ "n0 + 1"]) simp
qed

lemma run_unique:
  fixes m :: int
  assumes "\<forall>k. 0 \<le> k \<and> k < n \<longrightarrow> m - k \<in> S" "m - n \<notin> S" "0 \<le> n"
    and "\<forall>k. 0 \<le> k \<and> k < n' \<longrightarrow> m - k \<in> S" "m - n' \<notin> S" "0 \<le> n'"
  shows "n = n'"
proof (rule ccontr)
  assume "n \<noteq> n'"
  then consider "n < n'" | "n' < n" by linarith
  then show False
  proof cases
    case 1 with assms(2,3,4) show False by blast
  next
    case 2 with assms(1,5,6) show False by blast
  qed
qed

lemma current_streak_Nil: "current_streak today [] = 0"
  by (simp add: current_streak_def)

lemma list_max_ex: "D \<noteq> [] \<Longrightarrow> \<exists>m\<in>set D. \<forall>d\<in>set D. d \<le> (m::int)"
  by (metis List.finite_set Max_ge Max_in set_empty)

section \<open>The streak\<close>

lemma streak_loop_spec_walk: "streak_loop c ds n = spec_walk c n ds"
  by (induction ds arbitrary: c n) auto

lemma current_streak_set: "set D = set D' \<Longrightarrow> current_streak today D = current_streak today D'"
  by (simp add: current_streak_def sort_unique)

lemma streak_extend:
  assumes m: "m \<in> set D" "\<forall>d\<in>set D. d \<le> m"
    and n: "current_streak today D = n" "0 < n"
    and E: "\<forall>x\<in>set E. x < m - n"
    and D': "set D' = set D \<union> set E"
  shows "current_streak today D' = n"
proof -
  from current_streak_max [OF m, of today] obtain r where r: "1 \<le> r"
    "\<forall>k. 0 \<le> k \<and> k < r \<longrightarrow> m - k \<in> set D" "m - r \<notin> set D"
    "current_streak today D = (if m = today \<or> m = today - 1 then r else 0)" by blast
  from r(4) n have anchor: "m = today \<or> m = today - 1" and rn: "r = n"
    by (auto split: if_splits)
  have m1: "m \<in> set D'" using m(1) D' by simp
  have m2: "\<forall>d\<in>set D'. d \<le> m" using m(2) E n(2) D' by auto
  from current_streak_max [OF m1 m2, of today] obtain r' where r': "1 \<le> r'"
    "\<forall>k. 0 \<le> k \<and> k < r' \<longrightarrow> m - k \<in> set D'" "m - r' \<notin> set D'"
    "current_streak today D' = (if m = today \<or> m = today - 1 then r' else 0)" by blast
  have a: "\<forall>k. 0 \<le> k \<and> k < n \<longrightarrow> m - k \<in> set D'" using r(2) rn D' by simp
  have b: "m - n \<notin> set D'" using r(3) rn E D' by auto
  have "n = r'" using run_unique [OF a b _ r'(2) r'(3)] n(2) r'(1) by simp
  with r'(4) anchor show ?thesis by simp
qed

lemma streak_zero_extend:
  assumes z: "current_streak today D = 0"
    and E: "\<forall>x\<in>set E. x < today - 1"
    and D': "set D' = set D \<union> set E"
  shows "current_streak today D' = 0"
proof (cases "D' = []")
  case True
  then show ?thesis by (simp add: current_streak_Nil)
next
  case False
  from list_max_ex [OF False] obtain m' where m': "m' \<in> set D'" "\<forall>d\<in>set D'. d \<le> m'" by blast
  from current_streak_max [OF m', of today] obtain r' where r': "1 \<le> r'"
    "current_streak today D' = (if m' = today \<or> m' = today - 1 then r' else 0)" by blast
  show ?thesis
  proof (cases "m' \<in> set E")
    case True
    with E have "m' < today - 1" by blast
    with r'(2) show ?thesis by simp
  next
    case False
    with m' D' have m: "m' \<in> set D" "\<forall>d\<in>set D. d \<le> m'" by auto
    from current_streak_max [OF m, of today] obtain r where r: "1 \<le> r"
      "current_streak today D = (if m' = today \<or> m' = today - 1 then r else 0)" by blast
    with z have "\<not> (m' = today \<or> m' = today - 1)" by (auto split: if_splits)
    with r'(2) show ?thesis by simp
  qed
qed

lemma streak_two:
  assumes "today \<in> set D" "today - 1 \<in> set D" "today - 2 \<notin> set D" "\<forall>d\<in>set D. d \<le> today"
  shows "current_streak today D = 2"
proof -
  from current_streak_max [OF assms(1) assms(4), of today] obtain r where r: "1 \<le> r"
    "\<forall>k. 0 \<le> k \<and> k < r \<longrightarrow> today - k \<in> set D" "today - r \<notin> set D"
    "current_streak today D = (if today = today \<or> today = today - 1 then r else 0)" by blast
  have a: "\<forall>k. 0 \<le> k \<and> k < 2 \<longrightarrow> today - k \<in> set D"
  proof (intro allI impI)
    fix k :: int assume "0 \<le> k \<and> k < 2"
    then have "k = 0 \<or> k = 1" by linarith
    with assms(1,2) show "today - k \<in> set D" by auto
  qed
  have "2 = r" using run_unique [OF a assms(3) _ r(2) r(3)] r(1) by simp
  with r(4) show ?thesis by simp
qed

lemma streak_loop_le: "streak_loop c ds cur \<le> cur + int (length ds)"
proof (induction ds arbitrary: c cur)
  case Nil
  then show ?case by simp
next
  case (Cons d ds)
  have "streak_loop d ds (cur + 1) \<le> cur + 1 + int (length ds)" by (rule Cons.IH)
  then show ?case by simp
qed

lemma streak_loop_ge: "cur \<le> streak_loop c ds cur"
proof (induction ds arbitrary: c cur)
  case Nil
  then show ?case by simp
next
  case (Cons d ds)
  have "cur + 1 \<le> streak_loop d ds (cur + 1)" by (rule Cons.IH)
  then show ?case by simp
qed

lemma current_streak_bounds: "0 \<le> current_streak today D \<and> current_streak today D \<le> int (card (set D))"
proof -
  have len: "length (rev (sort (unique D))) = card (set D)"
    by (metis distinct_card distinct_unique set_unique length_rev length_sort)
  show ?thesis
  proof (cases "rev (sort (unique D))")
    case Nil
    then show ?thesis by (simp add: current_streak_def)
  next
    case (Cons d0 rest)
    with len have "int (card (set D)) = 1 + int (length rest)" by simp
    moreover have "streak_loop d0 rest 1 \<le> 1 + int (length rest)" by (rule streak_loop_le)
    moreover have "1 \<le> streak_loop d0 rest 1" by (rule streak_loop_ge)
    ultimately show ?thesis using Cons by (simp add: current_streak_def)
  qed
qed

section \<open>The daily counts\<close>

lemma value_counts_mset:
  "mset (value_counts D) = image_mset (\<lambda>d. (d, count_list D d)) (mset (unique D))"
  by (simp add: value_counts_def)

lemma daily_counts_mset:
  "mset (daily_counts D) = image_mset (\<lambda>d. (d, count_list D d)) (mset (unique D))"
  by (simp add: daily_counts_def sort_index_def value_counts_mset)

lemma daily_counts_keys: "map fst (daily_counts D) = sorted_list_of_set (set D)"
proof -
  have "mset (map fst (daily_counts D)) = mset (unique D)"
    by (simp add: daily_counts_mset multiset.map_comp comp_def)
  then have d: "distinct (map fst (daily_counts D))" and s: "set (map fst (daily_counts D)) = set D"
    using distinct_unique [of D] set_unique [of D]
    by (metis mset_eq_imp_distinct_iff, metis mset_eq_setD)
  have "sorted (map fst (daily_counts D))"
    by (simp add: daily_counts_def sort_index_def)
  then have "sorted_list_of_set (set (map fst (daily_counts D))) = map fst (daily_counts D)"
    using d by (rule sorted_list_of_set.idem_if_sorted_distinct)
  with s show ?thesis by simp
qed

lemma daily_counts_entry: "e \<in> set (daily_counts D) \<Longrightarrow> e = (fst e, count_list D (fst e))"
proof -
  assume "e \<in> set (daily_counts D)"
  then have "e \<in># mset (daily_counts D)" by simp
  then show ?thesis unfolding daily_counts_mset by auto
qed

lemma daily_counts_canonical:
  "daily_counts D = map (\<lambda>d. (d, count_list D d)) (sorted_list_of_set (set D))"
proof -
  have "map ((\<lambda>d. (d, count_list D d)) \<circ> fst) (daily_counts D) = daily_counts D"
    by (rule map_idI) (use daily_counts_entry in \<open>simp flip: daily_counts_entry\<close>)
  then show ?thesis by (simp add: daily_counts_keys flip: map_map)
qed

lemma daily_counts_sum: "sum_list (map snd (daily_counts D)) = length D"
proof -
  have "sum_list (map snd (daily_counts D)) = sum_list (map (count_list D) (sorted_list_of_set (set D)))"
    by (simp add: daily_counts_canonical comp_def)
  also have "\<dots> = sum (count_list D) (set (sorted_list_of_set (set D)))"
    by (rule sum_list_distinct_conv_sum_set) simp
  also have "\<dots> = length D"
    by (simp add: sum_count_set)
  finally show ?thesis .
qed

lemma daily_counts_lookup:
  "map_of (daily_counts D) d = (if d \<in> set D then Some (count_list D d) else None)"
proof (cases "d \<in> set D")
  case True
  then have "d \<in> set (sorted_list_of_set (set D))" by simp
  then have "map_of (map (\<lambda>d. (d, count_list D d)) (sorted_list_of_set (set D))) d = Some (count_list D d)"
    by (simp add: map_of_map_restrict)
  with True show ?thesis by (simp add: daily_counts_canonical)
next
  case False
  then have "d \<notin> fst ` set (daily_counts D)" using daily_counts_keys [of D]
    by (metis set_map set_sorted_list_of_set List.finite_set)
  then have "map_of (daily_counts D) d = None" by (simp add: map_of_eq_None_iff)
  with False show ?thesis by simp
qed

section \<open>Parsing the timestamp column\<close>

lemma select_rows_filter: "select_rows (map P xs) xs = filter P xs"
  by (induction xs) (auto simp: select_rows_def)

lemma length_filter_id_map: "length (filter id (map P xs)) = length (filter P xs)"
  by (induction xs) auto

lemma dropna_parsed:
  "dropna (setitem df ''parsed_timestamp'' parsed) ''parsed_timestamp'' =
     Inr \<lparr>index = length (filter (\<lambda>c. c \<noteq> NaN) parsed),
          columns = map (\<lambda>(n, c). (n, select_rows (map (\<lambda>c. c \<noteq> NaN) parsed) c))
                      (AList.update ''parsed_timestamp'' parsed (columns df))\<rparr>"
  by (simp add: dropna_def setitem_def update_conv' length_filter_id_map)

lemma getitem_dropped:
  "getitem \<lparr>index = i,
          columns = map (\<lambda>(n, c). (n, select_rows (map (\<lambda>c. c \<noteq> NaN) parsed) c))
                      (AList.update ''parsed_timestamp'' parsed cols)\<rparr> ''parsed_timestamp''
   = Inr (filter (\<lambda>c. c \<noteq> NaN) parsed)"
  by (simp add: getitem_def map_of_map update_conv' select_rows_filter)

lemma update_not_Nil: "AList.update k v al \<noteq> []"
  by (cases al) (auto)

lemma kept_all_stamps:
  "list_all is_stamp (filter (\<lambda>c. c \<noteq> NaN) parsed) \<longleftrightarrow> list_all datetimelike parsed"
proof (induction parsed)
  case Nil then show ?case by simp
next
  case (Cons c parsed) then show ?case by (cases c) auto
qed

lemma kept_dates:
  "list_all datetimelike parsed \<Longrightarrow>
   map stamp_date (filter (\<lambda>c. c \<noteq> NaN) parsed) = List.map_filter cell_date parsed"
proof (induction parsed)
  case Nil then show ?case by (simp add: List.map_filter_simps)
next
  case (Cons c parsed) then show ?case
    by (cases c) (auto simp: List.map_filter_simps)
qed

lemma kept_none:
  "list_all datetimelike parsed \<Longrightarrow>
   filter (\<lambda>c. c \<noteq> NaN) parsed = [] \<longleftrightarrow> List.map_filter cell_date parsed = []"
proof (induction parsed)
  case Nil then show ?case by (simp add: List.map_filter_simps)
next
  case (Cons c parsed) then show ?case
    by (cases c) (auto simp: List.map_filter_simps)
qed

lemma kept_object:
  "\<not> list_all datetimelike parsed \<Longrightarrow> filter (\<lambda>c. c \<noteq> NaN) parsed \<noteq> []"
proof (induction parsed)
  case Nil then show ?case by simp
next
  case (Cons c parsed) then show ?case by (cases c) auto
qed

lemma dt_date_kept:
  "dt_date (filter (\<lambda>c. c \<noteq> NaN) parsed) =
     (if list_all datetimelike parsed then Inr (List.map_filter cell_date parsed)
      else Inl (Exn AttributeError ''Can only use .dt accessor with datetimelike values''))"
  by (simp add: dt_date_def kept_all_stamps kept_dates)

lemma streak_parse_converted:
  assumes "map_of (columns df) name = Some col" "to_datetime p col ErrorsCoerce = Inr parsed"
  shows "streak_parse p name df =
     (if filter (\<lambda>c. c \<noteq> NaN) parsed = [] then Return [] 0
      else Next \<lparr>index = length (filter (\<lambda>c. c \<noteq> NaN) parsed),
          columns = map (\<lambda>(n, c). (n, select_rows (map (\<lambda>c. c \<noteq> NaN) parsed) c))
                      (AList.update ''parsed_timestamp'' parsed (columns df))\<rparr>)"
  using assms
  by (simp add: streak_parse_def getitem_def dropna_parsed df_empty_def update_not_Nil)

lemma heatmap_parse_converted:
  assumes "map_of (columns df) name = Some col" "to_datetime p col ErrorsCoerce = Inr parsed"
  shows "heatmap_parse p name df =
     (if filter (\<lambda>c. c \<noteq> NaN) parsed = [] then Return [] None
      else Next \<lparr>index = length (filter (\<lambda>c. c \<noteq> NaN) parsed),
          columns = map (\<lambda>(n, c). (n, select_rows (map (\<lambda>c. c \<noteq> NaN) parsed) c))
                      (AList.update ''parsed_timestamp'' parsed (columns df))\<rparr>)"
  using assms
  by (simp add: heatmap_parse_def getitem_def dropna_parsed df_empty_def update_not_Nil)

lemma streak_parse_raised:
  assumes "map_of (columns df) name = Some col" "to_datetime p col ErrorsCoerce = Inl e"
  shows "streak_parse p name df =
     Return [St_warning (''Streak: Error parsing timestamp column '' @ [CHR 0x27]
               @ name @ [CHR 0x27] @ '': '' @ exn_str e)] 0"
  using assms by (simp add: streak_parse_def getitem_def)

lemma heatmap_parse_raised:
  assumes "map_of (columns df) name = Some col" "to_datetime p col ErrorsCoerce = Inl e"
  shows "heatmap_parse p name df =
     Return [St_warning (''Heatmap: Error parsing timestamp column '' @ [CHR 0x27]
               @ name @ [CHR 0x27] @ '': '' @ exn_str e)] None"
  using assms by (simp add: heatmap_parse_def getitem_def)

lemma streak_frame_converted:
  assumes "streak_resolve p df = Next name" "map_of (columns df) name = Some col"
    and "to_datetime p col ErrorsCoerce = Inr parsed"
  shows "streak_frame p today df =
     (if list_all datetimelike parsed
      then Inr ([], current_streak today (List.map_filter cell_date parsed))
      else Inl (Exn AttributeError ''Can only use .dt accessor with datetimelike values''))"
proof (cases "list_all datetimelike parsed")
  case True
  then show ?thesis
    using assms kept_none [OF True]
    by (simp add: streak_frame_def streak_parse_converted [OF assms(2,3)] streak_dates_def
        getitem_dropped dt_date_kept current_streak_Nil)
next
  case False
  then show ?thesis
    using assms kept_object [OF False]
    by (simp add: streak_frame_def streak_parse_converted [OF assms(2,3)] streak_dates_def
        getitem_dropped dt_date_kept)
qed

lemma heatmap_frame_converted:
  assumes "heatmap_resolve p df = Next name" "map_of (columns df) name = Some col"
    and "to_datetime p col ErrorsCoerce = Inr parsed"
  shows "heatmap_frame p df =
     (if list_all datetimelike parsed
      then (if List.map_filter cell_date parsed = [] then Inr ([], None)
            else case heatmap_plot p (List.map_filter cell_date parsed) of
                   Inl e \<Rightarrow> Inl e
                 | Inr fig \<Rightarrow> Inr ([], fig))
      else Inl (Exn AttributeError ''Can only use .dt accessor with datetimelike values''))"
proof (cases "list_all datetimelike parsed")
  case True
  then show ?thesis
    using assms kept_none [OF True]
    by (simp add: heatmap_frame_def heatmap_parse_converted [OF assms(2,3)] heatmap_dates_def
        getitem_dropped dt_date_kept)
next
  case False
  then show ?thesis
    using assms kept_object [OF False]
    by (simp add: heatmap_frame_def heatmap_parse_converted [OF assms(2,3)] heatmap_dates_def
        getitem_dropped dt_date_kept)
qed

lemma streak_frame_raised:
  assumes "streak_resolve p df = Next name" "map_of (columns df) name = Some col"
    and "to_datetime p col ErrorsCoerce = Inl e"
  shows "streak_frame p today df =
     Inr ([St_warning (''Streak: Error parsing timestamp column '' @ [CHR 0x27]
               @ name @ [CHR 0x27] @ '': '' @ exn_str e)], 0)"
  using assms(1) by (simp add: streak_frame_def streak_parse_raised [OF assms(2,3)])

lemma heatmap_frame_raised:
  assumes "heatmap_resolve p df = Next name" "map_of (columns df) name = Some col"
    and "to_datetime p col ErrorsCoerce = Inl e"
  shows "heatmap_frame p df =
     Inr ([St_warning (''Heatmap: Error parsing timestamp column '' @ [CHR 0x27]
               @ name @ [CHR 0x27] @ '': '' @ exn_str e)], None)"
  using assms(1) by (simp add: heatmap_frame_def heatmap_parse_raised [OF assms(2,3)])

section \<open>Resolving the timestamp column\<close>

lemma streak_resolve_eq:
  "streak_resolve p df =
     (if ''timestamp'' \<in> set (map fst (columns df)) then Next ''timestamp''
      else if ''Date and Time'' \<in> set (map fst (columns df)) then Next ''Date and Time''
      else case columns df of
        [] \<Rightarrow> Return [St_warning ''Streak: CSV file has no columns.''] 0
      | (name0, col0) # rest \<Rightarrow>
          (case datetime_raise p col0 of
             Inr parsed \<Rightarrow>
               if name0 = []
               then Return [St_warning ''Streak: Timestamp column could not be determined.''] 0
               else Next name0
           | Inl m \<Rightarrow>
               Return [St_warning ''Streak: Could not identify a suitable timestamp column.''] 0))"
  by (simp add: streak_resolve_def split: list.splits sum.splits)

lemma heatmap_resolve_eq:
  "heatmap_resolve p df =
     (if ''timestamp'' \<in> set (map fst (columns df)) then Next ''timestamp''
      else if ''Date and Time'' \<in> set (map fst (columns df)) then Next ''Date and Time''
      else case columns df of
        [] \<Rightarrow> Return [St_warning ''Heatmap: CSV file has no columns.''] None
      | (name0, col0) # rest \<Rightarrow>
          (case datetime_raise p col0 of
             Inr parsed \<Rightarrow>
               if name0 = []
               then Return [St_warning ''Heatmap: Timestamp column could not be determined.''] None
               else Next name0
           | Inl m \<Rightarrow>
               Return [St_warning ''Heatmap: Could not identify a suitable timestamp column.''] None))"
  by (simp add: heatmap_resolve_def split: list.splits sum.splits)

lemma streak_resolve_no_raise: "streak_resolve p df \<noteq> Raise e"
  by (simp add: streak_resolve_eq split: list.splits sum.splits)

lemma heatmap_resolve_no_raise: "heatmap_resolve p df \<noteq> Raise e"
  by (simp add: heatmap_resolve_eq split: list.splits sum.splits)

lemma streak_resolve_return:
  "streak_resolve p df = Return ms r \<Longrightarrow> r = 0 \<and> (\<exists>w. ms = [St_warning w])"
  by (auto simp: streak_resolve_eq split: list.splits if_splits sum.splits)

lemma heatmap_resolve_return:
  "heatmap_resolve p df = Return ms r \<Longrightarrow> r = None \<and> (\<exists>w. ms = [St_warning w])"
  by (auto simp: heatmap_resolve_eq split: list.splits if_splits sum.splits)

lemma resolve_same: "streak_resolve p df = Next name \<longleftrightarrow> heatmap_resolve p df = Next name"
  by (auto simp: streak_resolve_eq heatmap_resolve_eq split: list.splits if_splits sum.splits)

lemma resolve_fail_same:
  "(\<exists>ms. streak_resolve p df = Return ms 0) \<longleftrightarrow> (\<exists>ms. heatmap_resolve p df = Return ms None)"
  by (auto simp: streak_resolve_eq heatmap_resolve_eq split: list.splits if_splits sum.splits)

lemma streak_resolve_column:
  "streak_resolve p df = Next name \<Longrightarrow> \<exists>col. map_of (columns df) name = Some col"
proof -
  assume "streak_resolve p df = Next name"
  then have "name \<in> set (map fst (columns df))"
    by (auto simp: streak_resolve_eq split: list.splits if_splits sum.splits)
  then have "map_of (columns df) name \<noteq> None"
    by (simp add: map_of_eq_None_iff)
  then show ?thesis by blast
qed

lemma streak_frame_return:
  "streak_resolve p df = Return ms r \<Longrightarrow> streak_frame p today df = Inr (ms, r)"
  by (simp add: streak_frame_def)

lemma heatmap_frame_return:
  "heatmap_resolve p df = Return ms r \<Longrightarrow> heatmap_frame p df = Inr (ms, r)"
  by (simp add: heatmap_frame_def)

lemma parse_same: "streak_parse p name df = Next df' \<longleftrightarrow> heatmap_parse p name df = Next df'"
  by (auto simp: streak_parse_def heatmap_parse_def split: sum.splits if_splits)

lemma dates_same: "streak_dates df' = heatmap_dates df'"
  by (simp add: streak_dates_def heatmap_dates_def)

section \<open>Reading the store and drawing the figure\<close>

lemma streak_read_no_raise: "streak_read s \<noteq> Raise e"
  by (simp add: streak_read_def split: csv_outcome.splits exn.splits exn_class.splits)

lemma streak_read_return: "streak_read s = Return ms r \<Longrightarrow> r = 0"
  by (auto simp: streak_read_def split: if_splits csv_outcome.splits exn.splits exn_class.splits)

lemma streak_read_next:
  "streak_read s = Next df \<longleftrightarrow>
     path_exists s \<and> path_size s \<noteq> 0 \<and> read_csv s = Returns df \<and> \<not> df_empty df"
  by (auto simp: streak_read_def split: if_splits csv_outcome.splits exn.splits exn_class.splits)

lemma heatmap_read_next:
  "heatmap_read s = Next df \<longleftrightarrow>
     path_exists s \<and> path_size s \<noteq> 0 \<and> read_csv s = Returns df \<and> \<not> df_empty df"
  by (auto simp: heatmap_read_def split: if_splits csv_outcome.splits)

lemma events_Nil: "events (daily_counts dates) = [] \<longleftrightarrow> dates = []"
proof -
  have "events (daily_counts dates) = [] \<longleftrightarrow> map fst (daily_counts dates) = []"
    by (simp add: events_def)
  also have "\<dots> \<longleftrightarrow> dates = []"
    by (simp add: daily_counts_keys)
  finally show ?thesis .
qed

lemma heatmap_plot_draws:
  assumes "dates \<noteq> []" "index_raises p (map fst (daily_counts dates)) = None"
    and "calplot_raises p (events (daily_counts dates)) = None"
  shows "heatmap_plot p dates = Inr (Some (Calplot (events (daily_counts dates))))"
  using assms by (simp add: heatmap_plot_def Let_def events_Nil)

section \<open>The properties of the specification\<close>

text \<open>
  Claim C1. For every sequence of parsed dates and every \<open>today\<close>, the streak computed
  by lines 64 to 83 is the one of the specification's algorithm: the distinct dates in
  descending order; 0 unless the most recent is today or yesterday; otherwise a count
  starting at 1 that walks the remaining dates, grows at each date one day before the
  cursor and stops at the first date that is not.
\<close>

theorem current_streak_follows_spec: "current_streak today dates = spec_currentStreak dates today"
proof (cases "dates = []")
  case True
  then show ?thesis by (simp add: current_streak_def spec_currentStreak_def)
next
  case False
  then have "sorted_list_of_set (set dates) \<noteq> []" by simp
  then have "rev (sorted_list_of_set (set dates)) \<noteq> []" by simp
  then obtain d0 rest where "rev (sorted_list_of_set (set dates)) = d0 # rest"
    by (cases "rev (sorted_list_of_set (set dates))") auto
  with False show ?thesis
    by (simp add: current_streak_def spec_currentStreak_def sort_unique streak_loop_spec_walk)
qed

theorem current_streak_follows_spec_witness:
  "current_streak 10 [8, 10, 9, 6, 9] = 3 \<and> spec_currentStreak [8, 10, 9, 6, 9] 10 = 3"
proof -
  have "current_streak 10 [8, 10, 9, 6, 9] = 3" by (simp add: current_streak_def)
  then show ?thesis using current_streak_follows_spec [of 10 "[8, 10, 9, 6, 9]"] by simp
qed

text \<open>
  Claim C2. The streak depends only on the run of consecutive days ending at the
  most recent date \<open>m\<close>, which is today or yesterday. When the streak of \<open>D\<close> is
  \<open>n > 0\<close>, the run is \<open>m - n + 1, \<dots>, m\<close>; further dates \<open>E\<close> that are all older than the
  missing day \<open>m - n\<close> below the run, inserted anywhere, leave the streak at \<open>n\<close>. When
  the streak of \<open>D\<close> is 0, further dates older than yesterday leave it at 0. In particular,
  when no date is later than today, entries for today and yesterday and none for the day
  before give streak 2, whatever older dates there are.
\<close>

theorem streak_ignores_dates_beyond_gap:
  "(m \<in> set D \<and> (\<forall>d\<in>set D. d \<le> m) \<and> current_streak today D = n \<and> 0 < n
      \<and> (\<forall>x\<in>set E. x < m - n) \<and> mset D' = mset D + mset E
      \<longrightarrow> current_streak today D' = n)
   \<and> (current_streak today D = 0 \<and> (\<forall>x\<in>set E. x < today - 1) \<and> mset D' = mset D + mset E
      \<longrightarrow> current_streak today D' = 0)
   \<and> (today \<in> set D \<and> today - 1 \<in> set D \<and> today - 2 \<notin> set D \<and> (\<forall>d\<in>set D. d \<le> today)
      \<longrightarrow> current_streak today D = 2)"
proof (intro conjI impI)
  assume h: "m \<in> set D \<and> (\<forall>d\<in>set D. d \<le> m) \<and> current_streak today D = n \<and> 0 < n
      \<and> (\<forall>x\<in>set E. x < m - n) \<and> mset D' = mset D + mset E"
  then have "set D' = set D \<union> set E" by (metis set_mset_mset set_mset_union)
  with h show "current_streak today D' = n" by (blast intro: streak_extend)
next
  assume h: "current_streak today D = 0 \<and> (\<forall>x\<in>set E. x < today - 1) \<and> mset D' = mset D + mset E"
  then have "set D' = set D \<union> set E" by (metis set_mset_mset set_mset_union)
  with h show "current_streak today D' = 0" by (blast intro: streak_zero_extend)
next
  assume "today \<in> set D \<and> today - 1 \<in> set D \<and> today - 2 \<notin> set D \<and> (\<forall>d\<in>set D. d \<le> today)"
  then show "current_streak today D = 2" by (blast intro: streak_two)
qed

theorem streak_ignores_dates_beyond_gap_witness:
  "current_streak 10 [3, 10, 9, 2, 9, 7, 1] = 2 \<and> current_streak 10 [7, 8, 3] = 0
   \<and> current_streak 10 [6, 10, 5, 9, 4, 10] = 2"
proof -
  have a: "current_streak 10 [10, 9, 9, 7] = 2" by (simp add: current_streak_def)
  have b: "mset [3, 10, 9, 2, 9, 7, 1] = mset [10, 9, 9, 7] + mset [3, 2, 1::int]" by simp
  have c: "current_streak 10 [7, 8] = 0" by (simp add: current_streak_def)
  have d: "mset [7, 8, 3] = mset [7, 8] + mset [3::int]" by simp
  show ?thesis
    using streak_ignores_dates_beyond_gap [of 10 "[10, 9, 9, 7]" 10 2 "[3, 2, 1]" "[3, 10, 9, 2, 9, 7, 1]"] a b
      streak_ignores_dates_beyond_gap [of 0 "[7, 8]" 10 0 "[3]" "[7, 8, 3]"] c d
      streak_ignores_dates_beyond_gap [of 0 "[6, 10, 5, 9, 4, 10]" 10 0 "[]" "[]"]
    by simp
qed

text \<open>
  Claim C3. The column names of a frame read by \<open>pd.read_csv\<close> are never empty (a column
  without a header is named \<open>Unnamed: i\<close>). For every such frame, both functions
  resolve the timestamp column in this order: a column named \<open>timestamp\<close>; else a column
  named \<open>Date and Time\<close>; else, when there is a column, the first one exactly when
  \<open>pd.to_datetime\<close> with \<open>errors='raise'\<close> converts it. Resolution fails exactly when
  neither name is present and there is no column or the first column does not convert;
  the function then returns its zero or empty result with one warning.
\<close>

theorem timestamp_column_resolution_order:
  assumes "[] \<notin> set (map fst (columns df))"
  shows
  "(''timestamp'' \<in> set (map fst (columns df)) \<longrightarrow>
      streak_resolve p df = Next ''timestamp'' \<and> heatmap_resolve p df = Next ''timestamp'')
   \<and> (''timestamp'' \<notin> set (map fst (columns df)) \<and> ''Date and Time'' \<in> set (map fst (columns df)) \<longrightarrow>
      streak_resolve p df = Next ''Date and Time'' \<and> heatmap_resolve p df = Next ''Date and Time'')
   \<and> (''timestamp'' \<notin> set (map fst (columns df)) \<and> ''Date and Time'' \<notin> set (map fst (columns df))
        \<and> columns df = (name0, col0) # rest \<longrightarrow>
        ((\<exists>parsed. to_datetime p col0 ErrorsRaise = Inr parsed) \<longrightarrow>
           streak_resolve p df = Next name0 \<and> heatmap_resolve p df = Next name0)
      \<and> ((\<exists>e. to_datetime p col0 ErrorsRaise = Inl e) \<longrightarrow>
           streak_resolve p df =
             Return [St_warning ''Streak: Could not identify a suitable timestamp column.''] 0
         \<and> heatmap_resolve p df =
             Return [St_warning ''Heatmap: Could not identify a suitable timestamp column.''] None))
   \<and> (columns df = [] \<longrightarrow>
        streak_resolve p df = Return [St_warning ''Streak: CSV file has no columns.''] 0
      \<and> heatmap_resolve p df = Return [St_warning ''Heatmap: CSV file has no columns.''] None)
   \<and> ((\<exists>ms r. streak_resolve p df = Return ms r) \<longleftrightarrow>
        ''timestamp'' \<notin> set (map fst (columns df)) \<and> ''Date and Time'' \<notin> set (map fst (columns df))
        \<and> (columns df = [] \<or> (\<exists>e. to_datetime p (snd (hd (columns df))) ErrorsRaise = Inl e)))
   \<and> ((\<exists>ms r. heatmap_resolve p df = Return ms r) \<longleftrightarrow> (\<exists>ms r. streak_resolve p df = Return ms r))
   \<and> (streak_resolve p df = Return ms r \<longrightarrow>
        r = 0 \<and> (\<exists>w. ms = [St_warning w]) \<and> streak_frame p today df = Inr (ms, 0))
   \<and> (heatmap_resolve p df = Return ms' r' \<longrightarrow>
        r' = None \<and> (\<exists>w. ms' = [St_warning w]) \<and> heatmap_frame p df = Inr (ms', None))"
proof (intro conjI)
  show "''timestamp'' \<in> set (map fst (columns df)) \<longrightarrow>
      streak_resolve p df = Next ''timestamp'' \<and> heatmap_resolve p df = Next ''timestamp''"
    by (simp add: streak_resolve_eq heatmap_resolve_eq)
  show "''timestamp'' \<notin> set (map fst (columns df)) \<and> ''Date and Time'' \<in> set (map fst (columns df)) \<longrightarrow>
      streak_resolve p df = Next ''Date and Time'' \<and> heatmap_resolve p df = Next ''Date and Time''"
    by (simp add: streak_resolve_eq heatmap_resolve_eq)
  show "''timestamp'' \<notin> set (map fst (columns df)) \<and> ''Date and Time'' \<notin> set (map fst (columns df))
        \<and> columns df = (name0, col0) # rest \<longrightarrow>
        ((\<exists>parsed. to_datetime p col0 ErrorsRaise = Inr parsed) \<longrightarrow>
           streak_resolve p df = Next name0 \<and> heatmap_resolve p df = Next name0)
      \<and> ((\<exists>e. to_datetime p col0 ErrorsRaise = Inl e) \<longrightarrow>
           streak_resolve p df =
             Return [St_warning ''Streak: Could not identify a suitable timestamp column.''] 0
         \<and> heatmap_resolve p df =
             Return [St_warning ''Heatmap: Could not identify a suitable timestamp column.''] None)"
    using assms by (auto simp: streak_resolve_eq heatmap_resolve_eq split: if_splits sum.splits)
  show "columns df = [] \<longrightarrow>
        streak_resolve p df = Return [St_warning ''Streak: CSV file has no columns.''] 0
      \<and> heatmap_resolve p df = Return [St_warning ''Heatmap: CSV file has no columns.''] None"
    by (simp add: streak_resolve_eq heatmap_resolve_eq)
  show "(\<exists>ms r. streak_resolve p df = Return ms r) \<longleftrightarrow>
        ''timestamp'' \<notin> set (map fst (columns df)) \<and> ''Date and Time'' \<notin> set (map fst (columns df))
        \<and> (columns df = [] \<or> (\<exists>e. to_datetime p (snd (hd (columns df))) ErrorsRaise = Inl e))"
    using assms by (cases "columns df") (auto simp: streak_resolve_eq split: if_splits sum.splits)
  show "(\<exists>ms r. heatmap_resolve p df = Return ms r) \<longleftrightarrow> (\<exists>ms r. streak_resolve p df = Return ms r)"
    by (cases "columns df")
      (auto simp: streak_resolve_eq heatmap_resolve_eq split: if_splits sum.splits)
  show "streak_resolve p df = Return ms r \<longrightarrow>
        r = 0 \<and> (\<exists>w. ms = [St_warning w]) \<and> streak_frame p today df = Inr (ms, 0)"
    using streak_resolve_return [of p df ms r] streak_frame_return [of p df ms r today] by blast
  show "heatmap_resolve p df = Return ms' r' \<longrightarrow>
        r' = None \<and> (\<exists>w. ms' = [St_warning w]) \<and> heatmap_frame p df = Inr (ms', None)"
    using heatmap_resolve_return [of p df ms' r'] heatmap_frame_return [of p df ms' r'] by blast
qed

theorem timestamp_column_resolution_order_witness:
  "streak_resolve example_pandas
      \<lparr>index = 1, columns = [(''Date and Time'', [Text ''not a date'']),
                              (''timestamp'', [Text ''2024-01-03 09:00:00''])]\<rparr>
     = Next ''timestamp''
   \<and> heatmap_resolve example_pandas
      \<lparr>index = 1, columns = [(''when'', [Text ''2024-01-03 09:00:00'']),
                              (''Date and Time'', [Text ''not a date''])]\<rparr>
     = Next ''Date and Time''
   \<and> streak_resolve example_pandas
      \<lparr>index = 2, columns = [(''when'', [Text ''2024-01-03 09:00:00'', NaN]),
                              (''mood'', [Text ''Sad'', Text ''Sad''])]\<rparr>
     = Next ''when''
   \<and> streak_frame example_pandas 738888
      \<lparr>index = 2, columns = [(''when'', [Text ''2024-01-03 09:00:00'', Text ''not a date'']),
                              (''mood'', [Text ''Sad'', Text ''Sad''])]\<rparr>
     = Inr ([St_warning ''Streak: Could not identify a suitable timestamp column.''], 0)
   \<and> heatmap_frame example_pandas
      \<lparr>index = 2, columns = [(''when'', [Text ''2024-01-03 09:00:00'', Text ''not a date'']),
                              (''mood'', [Text ''Sad'', Text ''Sad''])]\<rparr>
     = Inr ([St_warning ''Heatmap: Could not identify a suitable timestamp column.''], None)"
proof -
  let ?a = "\<lparr>index = 1, columns = [(''Date and Time'', [Text ''not a date'']),
                              (''timestamp'', [Text ''2024-01-03 09:00:00''])]\<rparr>"
  let ?b = "\<lparr>index = 1, columns = [(''when'', [Text ''2024-01-03 09:00:00'']),
                              (''Date and Time'', [Text ''not a date''])]\<rparr>"
  let ?c = "\<lparr>index = 2, columns = [(''when'', [Text ''2024-01-03 09:00:00'', NaN]),
                              (''mood'', [Text ''Sad'', Text ''Sad''])]\<rparr>"
  let ?d = "\<lparr>index = 2, columns = [(''when'', [Text ''2024-01-03 09:00:00'', Text ''not a date'']),
                              (''mood'', [Text ''Sad'', Text ''Sad''])]\<rparr>"
  have a: "streak_resolve example_pandas ?a = Next ''timestamp''"
    using timestamp_column_resolution_order [of ?a example_pandas] by simp
  have b: "heatmap_resolve example_pandas ?b = Next ''Date and Time''"
    using timestamp_column_resolution_order [of ?b example_pandas] by simp
  have c: "streak_resolve example_pandas ?c = Next ''when''"
    using timestamp_column_resolution_order [of ?c example_pandas "''when''"
        "[Text ''2024-01-03 09:00:00'', NaN]" "[(''mood'', [Text ''Sad'', Text ''Sad''])]"]
    by simp
  have d: "streak_resolve example_pandas ?d =
        Return [St_warning ''Streak: Could not identify a suitable timestamp column.''] 0
      \<and> heatmap_resolve example_pandas ?d =
        Return [St_warning ''Heatmap: Could not identify a suitable timestamp column.''] None"
    using timestamp_column_resolution_order [of ?d example_pandas "''when''"
        "[Text ''2024-01-03 09:00:00'', Text ''not a date'']"
        "[(''mood'', [Text ''Sad'', Text ''Sad''])]"]
    by simp
  have e: "streak_frame example_pandas 738888 ?d =
        Inr ([St_warning ''Streak: Could not identify a suitable timestamp column.''], 0)"
    using d timestamp_column_resolution_order [of ?d example_pandas _ _ _
        "[St_warning ''Streak: Could not identify a suitable timestamp column.'']" 0 738888]
    by simp
  have f: "heatmap_frame example_pandas ?d =
        Inr ([St_warning ''Heatmap: Could not identify a suitable timestamp column.''], None)"
    using d timestamp_column_resolution_order [of ?d example_pandas _ _ _ _ _ _
        "[St_warning ''Heatmap: Could not identify a suitable timestamp column.'']" None]
    by simp
  from a b c e f show ?thesis by simp
qed

text \<open>
  Claim C4. As stated, the claim fails: which values convert is decided by
  \<open>pd.to_datetime\<close> on the whole column, and the conversion can raise. What holds, for a
  store that reads to a non-empty frame whose timestamp column resolves: when the
  conversion with \<open>errors='coerce'\<close> returns a column of datetime type, the records it
  left missing are dropped and both functions go on with exactly the others, in their
  order: the streak is the streak of their dates, the heatmap is \<open>None\<close> when there is
  none of them and, when neither the index conversion nor \<open>calplot.calplot\<close> raises, the
  figure of their daily counts; no message is shown. When the conversion raises, the
  \<open>except\<close> of lines 55 and 129 ends the batch: one warning, and 0 or \<open>None\<close>. Nothing is
  said of a conversion that returns a column without a datetime type.
\<close>

theorem coerced_missing_rows_dropped:
  assumes "path_exists s" "path_size s \<noteq> 0" "read_csv s = Returns df" "\<not> df_empty df"
    and "streak_resolve p df = Next name"
  shows "\<exists>col. map_of (columns df) name = Some col
     \<and> (\<forall>parsed. to_datetime p col ErrorsCoerce = Inr parsed \<and> list_all datetimelike parsed \<longrightarrow>
          calculate_streak p today s =
            Inr ([], current_streak today (List.map_filter cell_date parsed))
        \<and> (List.map_filter cell_date parsed = [] \<longrightarrow>
              create_activity_heatmap p s = Inr ([], None))
        \<and> (List.map_filter cell_date parsed \<noteq> []
            \<and> index_raises p (map fst (daily_counts (List.map_filter cell_date parsed))) = None
            \<and> calplot_raises p (events (daily_counts (List.map_filter cell_date parsed))) = None \<longrightarrow>
              create_activity_heatmap p s =
                Inr ([], Some (Calplot (events (daily_counts (List.map_filter cell_date parsed)))))))
     \<and> (\<forall>e. to_datetime p col ErrorsCoerce = Inl e \<longrightarrow>
          calculate_streak p today s =
            Inr ([St_warning (''Streak: Error parsing timestamp column '' @ [CHR 0x27]
                    @ name @ [CHR 0x27] @ '': '' @ exn_str e)], 0)
        \<and> create_activity_heatmap p s =
            Inr ([St_warning (''Heatmap: Error parsing timestamp column '' @ [CHR 0x27]
                    @ name @ [CHR 0x27] @ '': '' @ exn_str e)], None))"
proof -
  from streak_resolve_column [OF assms(5)] obtain col where
    col: "map_of (columns df) name = Some col" by blast
  from assms(1-4) have r1: "streak_read s = Next df" by (simp add: streak_read_next)
  from assms(1-4) have r2: "heatmap_read s = Next df" by (simp add: heatmap_read_next)
  from assms(5) have h: "heatmap_resolve p df = Next name" by (simp add: resolve_same)
  have c1: "calculate_streak p today s = streak_frame p today df"
    using r1 by (simp add: calculate_streak_def)
  have c2: "create_activity_heatmap p s = heatmap_frame p df"
    using r2 by (simp add: create_activity_heatmap_def)
  have a: "\<forall>parsed. to_datetime p col ErrorsCoerce = Inr parsed \<and> list_all datetimelike parsed \<longrightarrow>
          calculate_streak p today s =
            Inr ([], current_streak today (List.map_filter cell_date parsed))
        \<and> (List.map_filter cell_date parsed = [] \<longrightarrow>
              create_activity_heatmap p s = Inr ([], None))
        \<and> (List.map_filter cell_date parsed \<noteq> []
            \<and> index_raises p (map fst (daily_counts (List.map_filter cell_date parsed))) = None
            \<and> calplot_raises p (events (daily_counts (List.map_filter cell_date parsed))) = None \<longrightarrow>
              create_activity_heatmap p s =
                Inr ([], Some (Calplot (events (daily_counts (List.map_filter cell_date parsed))))))"
  proof (intro allI impI, elim conjE)
    fix parsed
    assume conv: "to_datetime p col ErrorsCoerce = Inr parsed" and dt: "list_all datetimelike parsed"
    have s: "calculate_streak p today s =
        Inr ([], current_streak today (List.map_filter cell_date parsed))"
      using c1 dt streak_frame_converted [OF assms(5) col conv, of today] by simp
    have hf: "heatmap_frame p df =
        (if List.map_filter cell_date parsed = [] then Inr ([], None)
         else case heatmap_plot p (List.map_filter cell_date parsed) of
                Inl e \<Rightarrow> Inl e
              | Inr fig \<Rightarrow> Inr ([], fig))"
      using dt heatmap_frame_converted [OF h col conv] by simp
    have e: "List.map_filter cell_date parsed = [] \<longrightarrow>
        create_activity_heatmap p s = Inr ([], None)"
      using c2 hf by simp
    have f: "List.map_filter cell_date parsed \<noteq> []
        \<and> index_raises p (map fst (daily_counts (List.map_filter cell_date parsed))) = None
        \<and> calplot_raises p (events (daily_counts (List.map_filter cell_date parsed))) = None \<longrightarrow>
          create_activity_heatmap p s =
            Inr ([], Some (Calplot (events (daily_counts (List.map_filter cell_date parsed)))))"
      using c2 hf by (simp add: heatmap_plot_draws)
    from s e f show "calculate_streak p today s =
            Inr ([], current_streak today (List.map_filter cell_date parsed))
        \<and> (List.map_filter cell_date parsed = [] \<longrightarrow>
              create_activity_heatmap p s = Inr ([], None))
        \<and> (List.map_filter cell_date parsed \<noteq> []
            \<and> index_raises p (map fst (daily_counts (List.map_filter cell_date parsed))) = None
            \<and> calplot_raises p (events (daily_counts (List.map_filter cell_date parsed))) = None \<longrightarrow>
              create_activity_heatmap p s =
                Inr ([], Some (Calplot (events (daily_counts (List.map_filter cell_date parsed))))))"
      by blast
  qed
  have b: "\<forall>e. to_datetime p col ErrorsCoerce = Inl e \<longrightarrow>
          calculate_streak p today s =
            Inr ([St_warning (''Streak: Error parsing timestamp column '' @ [CHR 0x27]
                    @ name @ [CHR 0x27] @ '': '' @ exn_str e)], 0)
        \<and> create_activity_heatmap p s =
            Inr ([St_warning (''Heatmap: Error parsing timestamp column '' @ [CHR 0x27]
                    @ name @ [CHR 0x27] @ '': '' @ exn_str e)], None)"
    using c1 c2 streak_frame_raised [OF assms(5) col, of _ today] heatmap_frame_raised [OF h col]
    by simp
  from col a b show ?thesis by blast
qed

theorem coerced_missing_rows_dropped_witness:
  "calculate_streak example_pandas 738888 (example_store ''timestamp'' plain_column) = Inr ([], 2)
   \<and> create_activity_heatmap example_pandas (example_store ''timestamp'' plain_column) =
       Inr ([], Some (Calplot [(\<lparr>ts_date = 738887, ts_time = 0\<rparr>, 1),
                               (\<lparr>ts_date = 738888, ts_time = 0\<rparr>, 2)]))
   \<and> calculate_streak example_pandas 738888 (example_store ''timestamp'' mixed_offsets_column) =
       Inr ([St_warning (''Streak: Error parsing timestamp column '' @ [CHR 0x27]
               @ ''timestamp'' @ [CHR 0x27] @ '': Mixed timezones detected'')], 0)"
proof -
  let ?s = "example_store ''timestamp'' plain_column"
  let ?df = "\<lparr>index = length plain_column,
        columns = [(''timestamp'', plain_column), (''mood'', map (\<lambda>c. Text ''Happy'') plain_column)]\<rparr>"
  let ?parsed = "[Stamp \<lparr>ts_date = 738888, ts_time = 32400\<rparr>, NaN,
                  Stamp \<lparr>ts_date = 738887, ts_time = 66600\<rparr>,
                  Stamp \<lparr>ts_date = 738888, ts_time = 76500\<rparr>]"
  have h1: "path_exists ?s" "path_size ?s \<noteq> 0" "read_csv ?s = Returns ?df" "\<not> df_empty ?df"
    by (simp_all add: df_empty_def)
  have h2: "streak_resolve example_pandas ?df = Next ''timestamp''"
    by (simp add: streak_resolve_def)
  have conv: "to_datetime example_pandas plain_column ErrorsCoerce = Inr ?parsed" by simp
  have dt: "list_all datetimelike ?parsed" by simp
  have d: "List.map_filter cell_date ?parsed = [738888, 738887, 738888]"
    by (simp add: List.map_filter_simps)
  have e: "current_streak 738888 [738888, 738887, 738888] = 2"
    by (simp add: current_streak_def)
  have f: "events (daily_counts [738888, 738887, 738888]) =
      [(\<lparr>ts_date = 738887, ts_time = 0\<rparr>, 1), (\<lparr>ts_date = 738888, ts_time = 0\<rparr>, 2)]"
    by (simp add: events_def daily_counts_def value_counts_def sort_index_def)
  from coerced_missing_rows_dropped [OF h1 h2, of 738888] conv dt
  have a: "calculate_streak example_pandas 738888 ?s = Inr ([], 2)
     \<and> create_activity_heatmap example_pandas ?s =
       Inr ([], Some (Calplot [(\<lparr>ts_date = 738887, ts_time = 0\<rparr>, 1),
                               (\<lparr>ts_date = 738888, ts_time = 0\<rparr>, 2)]))"
    by (simp add: d e f)
  let ?s' = "example_store ''timestamp'' mixed_offsets_column"
  let ?df' = "\<lparr>index = length mixed_offsets_column,
        columns = [(''timestamp'', mixed_offsets_column),
                   (''mood'', map (\<lambda>c. Text ''Happy'') mixed_offsets_column)]\<rparr>"
  have k1: "path_exists ?s'" "path_size ?s' \<noteq> 0" "read_csv ?s' = Returns ?df'" "\<not> df_empty ?df'"
    by (simp_all add: df_empty_def)
  have k2: "streak_resolve example_pandas ?df' = Next ''timestamp''"
    by (simp add: streak_resolve_def)
  from coerced_missing_rows_dropped [OF k1 k2, of 738888]
  have b: "calculate_streak example_pandas 738888 ?s' =
       Inr ([St_warning (''Streak: Error parsing timestamp column '' @ [CHR 0x27]
               @ ''timestamp'' @ [CHR 0x27] @ '': Mixed timezones detected'')], 0)"
    by simp
  from a b show ?thesis by blast
qed

text \<open>
  Claim C4, the counterexample. In the first store the second record's timestamp converts
  on its own, yet it is dropped with the unparseable one: the streak is 1, not the 2 of
  today and yesterday, and the heatmap counts one day only. In the second store two
  records have timestamps that convert, yet the conversion of the column raises and the
  batch ends with a warning and 0 or \<open>None\<close>.
\<close>

theorem parseable_row_dropped_or_batch_aborted:
  "to_datetime example_pandas [Text ''01/02/2024 09:00:00''] ErrorsCoerce =
       Inr [Stamp \<lparr>ts_date = 738887, ts_time = 32400\<rparr>]
   \<and> calculate_streak example_pandas 738888 (example_store ''timestamp'' two_formats_column) =
       Inr ([], 1)
   \<and> current_streak 738888 [738888, 738887] = 2
   \<and> create_activity_heatmap example_pandas (example_store ''timestamp'' two_formats_column) =
       Inr ([], Some (Calplot [(\<lparr>ts_date = 738888, ts_time = 0\<rparr>, 1)]))
   \<and> calculate_streak example_pandas 738888 (example_store ''timestamp'' mixed_offsets_column) =
       Inr ([St_warning (''Streak: Error parsing timestamp column '' @ [CHR 0x27]
               @ ''timestamp'' @ [CHR 0x27] @ '': Mixed timezones detected'')], 0)
   \<and> create_activity_heatmap example_pandas (example_store ''timestamp'' mixed_offsets_column) =
       Inr ([St_warning (''Heatmap: Error parsing timestamp column '' @ [CHR 0x27]
               @ ''timestamp'' @ [CHR 0x27] @ '': Mixed timezones detected'')], None)"
proof (intro conjI)
  show "to_datetime example_pandas [Text ''01/02/2024 09:00:00''] ErrorsCoerce =
       Inr [Stamp \<lparr>ts_date = 738887, ts_time = 32400\<rparr>]"
    by simp
  show "calculate_streak example_pandas 738888 (example_store ''timestamp'' two_formats_column) =
       Inr ([], 1)"
    by (simp add: calculate_streak_def streak_read_def df_empty_def streak_frame_def
        streak_resolve_def streak_parse_def getitem_def setitem_def dropna_def select_rows_def
        streak_dates_def dt_date_def current_streak_def)
  show "current_streak 738888 [738888, 738887] = 2"
    by (simp add: current_streak_def)
  show "create_activity_heatmap example_pandas (example_store ''timestamp'' two_formats_column) =
       Inr ([], Some (Calplot [(\<lparr>ts_date = 738888, ts_time = 0\<rparr>, 1)]))"
    by (simp add: create_activity_heatmap_def heatmap_read_def df_empty_def heatmap_frame_def
        heatmap_resolve_def heatmap_parse_def getitem_def setitem_def dropna_def select_rows_def
        heatmap_dates_def dt_date_def heatmap_plot_def events_def daily_counts_def
        value_counts_def sort_index_def)
  show "calculate_streak example_pandas 738888 (example_store ''timestamp'' mixed_offsets_column) =
       Inr ([St_warning (''Streak: Error parsing timestamp column '' @ [CHR 0x27]
               @ ''timestamp'' @ [CHR 0x27] @ '': Mixed timezones detected'')], 0)"
    by (simp add: calculate_streak_def streak_read_def df_empty_def streak_frame_def
        streak_resolve_def streak_parse_def getitem_def)
  show "create_activity_heatmap example_pandas (example_store ''timestamp'' mixed_offsets_column) =
       Inr ([St_warning (''Heatmap: Error parsing timestamp column '' @ [CHR 0x27]
               @ ''timestamp'' @ [CHR 0x27] @ '': Mixed timezones detected'')], None)"
    by (simp add: create_activity_heatmap_def heatmap_read_def df_empty_def heatmap_frame_def
        heatmap_resolve_def heatmap_parse_def getitem_def)
qed

text \<open>
  Claim C5. The streak depends on the set of distinct days only, so duplicate
  records of one day count once for it, while the daily count of a day is the number of
  records of that day.
\<close>

theorem duplicates_once_for_streak_each_for_counts:
  "(set D = set D' \<longrightarrow> current_streak today D = current_streak today D')
   \<and> current_streak today D = current_streak today (unique D)
   \<and> map_of (daily_counts D) d = (if d \<in> set D then Some (count_list D d) else None)"
  using current_streak_set [of D D' today] current_streak_set [of D "unique D" today]
    daily_counts_lookup [of D d] set_unique [of D]
  by simp

theorem duplicates_once_for_streak_each_for_counts_witness:
  "current_streak 5 [5, 5, 4, 5] = current_streak 5 [4, 5]
   \<and> current_streak 5 [4, 5] = 2
   \<and> map_of (daily_counts [5, 5, 4, 5]) 5 = Some 3"
proof -
  have "set [5, 5, 4, 5] = set [4, 5::int]" by auto
  moreover have "current_streak 5 [4, 5] = 2" by (simp add: current_streak_def)
  ultimately show ?thesis using duplicates_once_for_streak_each_for_counts [of "[5, 5, 4, 5]" "[4, 5]" 5 5] by simp
qed

text \<open>
  Claim C6. For every sequence \<open>D\<close> of parsed dates, the daily counts add up to the
  length of \<open>D\<close>, every entry has the number of occurrences of its day in \<open>D\<close>, which is
  at least 1, and the days with an entry are exactly the days of \<open>D\<close>.
\<close>

theorem daily_counts_sum_and_sparse:
  "sum_list (map snd (daily_counts D)) = length D
   \<and> (\<forall>(d, c) \<in> set (daily_counts D). 1 \<le> c \<and> c = count_list D d)
   \<and> set (map fst (daily_counts D)) = set D"
proof (intro conjI)
  show "sum_list (map snd (daily_counts D)) = length D" by (rule daily_counts_sum)
  show "\<forall>(d, c) \<in> set (daily_counts D). 1 \<le> c \<and> c = count_list D d"
  proof (clarify, rule conjI)
    fix d c assume e: "(d, c) \<in> set (daily_counts D)"
    from daily_counts_entry [OF e] show c: "c = count_list D d" by simp
    from e have "d \<in> set (map fst (daily_counts D))" by force
    then have "d \<in> set D" by (simp add: daily_counts_keys)
    then have "count_list D d \<noteq> 0" by (simp add: count_list_0_iff)
    with c show "1 \<le> c" by simp
  qed
  show "set (map fst (daily_counts D)) = set D" by (simp add: daily_counts_keys)
qed

theorem daily_counts_sum_and_sparse_witness:
  "daily_counts [3, 1, 3, 2, 3, 1] = [(1, 2), (2, 1), (3, 3)]
   \<and> sum_list (map snd (daily_counts [3, 1, 3, 2, 3, 1])) = 6
   \<and> list_all (\<lambda>(d, c). 1 \<le> c \<and> c = count_list [3, 1, 3, 2, 3, 1] d)
         (daily_counts [3, 1, 3, 2, 3, 1])"
proof -
  have "daily_counts [3, 1, 3, 2, 3, 1] = [(1, 2), (2, 1), (3, 3)]"
    by (simp add: daily_counts_def value_counts_def sort_index_def)
  moreover have "sum_list (map snd (daily_counts [3, 1, 3, 2, 3, 1])) = 6"
    using daily_counts_sum_and_sparse [of "[3, 1, 3, 2, 3, 1]"] by simp
  moreover have "list_all (\<lambda>(d, c). 1 \<le> c \<and> c = count_list [3, 1, 3, 2, 3, 1] d)
         (daily_counts [3, 1, 3, 2, 3, 1])"
    using conjunct1 [OF conjunct2 [OF daily_counts_sum_and_sparse [of "[3, 1, 3, 2, 3, 1]"]]]
    by (simp only: list_all_iff)
  ultimately show ?thesis by blast
qed

text \<open>
  Claim C7. The daily counts of a sequence of parsed dates and of any permutation of
  it are the same list, and its days are strictly ascending.
\<close>

theorem daily_counts_order_independent:
  "(mset D = mset D' \<longrightarrow> daily_counts D = daily_counts D')
   \<and> sorted_wrt (<) (map fst (daily_counts D))"
proof (intro conjI impI)
  assume h: "mset D = mset D'"
  then have "set D = set D'" by (rule mset_eq_setD)
  moreover from h have "count_list D = count_list D'" by (metis count_mset ext)
  ultimately show "daily_counts D = daily_counts D'" by (simp add: daily_counts_canonical)
next
  show "sorted_wrt (<) (map fst (daily_counts D))"
    by (simp add: daily_counts_keys)
qed

theorem daily_counts_order_independent_witness:
  "daily_counts [3, 1, 3, 2] = daily_counts [1, 2, 3, 3]
   \<and> daily_counts [1, 2, 3, 3] = [(1, 1), (2, 1), (3, 2)]"
proof -
  have "mset [3, 1, 3, 2] = mset [1, 2, 3, 3::int]" by simp
  moreover have "daily_counts [1, 2, 3, 3] = [(1, 1), (2, 1), (3, 2)]"
    by (simp add: daily_counts_def value_counts_def sort_index_def)
  ultimately show ?thesis using daily_counts_order_independent [of "[3, 1, 3, 2]" "[1, 2, 3, 3]"] by simp
qed

text \<open>
  Claim C8. When the store is missing or empty (the path does not exist, the file has
  size 0, \<open>pd.read_csv\<close> raises \<open>FileNotFoundError\<close> or \<open>EmptyDataError\<close>, or the
  frame read is empty), \<open>calculate_streak\<close> returns 0 and shows nothing, and
  \<open>create_activity_heatmap\<close> returns \<open>None\<close>; neither raises.
\<close>

theorem missing_or_empty_store_defaults:
  assumes "\<not> path_exists s \<or> path_size s = 0
     \<or> (\<exists>m. read_csv s = Raises (Exn FileNotFoundError m))
     \<or> (\<exists>m. read_csv s = Raises (Exn EmptyDataError m))
     \<or> (\<exists>df. read_csv s = Returns df \<and> df_empty df)"
  shows "calculate_streak p today s = Inr ([], 0)
     \<and> (\<exists>ms. create_activity_heatmap p s = Inr (ms, None))"
proof
  show "calculate_streak p today s = Inr ([], 0)"
    using assms by (auto simp: calculate_streak_def streak_read_def)
  show "\<exists>ms. create_activity_heatmap p s = Inr (ms, None)"
    using assms by (auto simp: create_activity_heatmap_def heatmap_read_def)
qed

theorem missing_or_empty_store_defaults_witness:
  "calculate_streak example_pandas 738888
      \<lparr>path_exists = False, path_size = 0,
       read_csv = Raises (Exn FileNotFoundError ''data/mood_data.csv'')\<rparr>
     = Inr ([], 0)
   \<and> calculate_streak example_pandas 738888
      \<lparr>path_exists = True, path_size = 1,
       read_csv = Raises (Exn EmptyDataError ''No columns to parse from file'')\<rparr>
     = Inr ([], 0)
   \<and> calculate_streak example_pandas 738888
      \<lparr>path_exists = True, path_size = 22,
       read_csv = Returns \<lparr>index = 0,
         columns = [(''timestamp'', []), (''mood'', []), (''reason'', [])]\<rparr>\<rparr>
     = Inr ([], 0)
   \<and> (\<exists>ms. create_activity_heatmap example_pandas
      \<lparr>path_exists = True, path_size = 22,
       read_csv = Returns \<lparr>index = 0,
         columns = [(''timestamp'', []), (''mood'', []), (''reason'', [])]\<rparr>\<rparr>
     = Inr (ms, None))"
  using
    missing_or_empty_store_defaults [of "\<lparr>path_exists = False, path_size = 0,
       read_csv = Raises (Exn FileNotFoundError ''data/mood_data.csv'')\<rparr>" example_pandas 738888]
    missing_or_empty_store_defaults [of "\<lparr>path_exists = True, path_size = 1,
       read_csv = Raises (Exn EmptyDataError ''No columns to parse from file'')\<rparr>"
       example_pandas 738888]
    missing_or_empty_store_defaults [of "\<lparr>path_exists = True, path_size = 22,
       read_csv = Returns \<lparr>index = 0,
         columns = [(''timestamp'', []), (''mood'', []), (''reason'', [])]\<rparr>\<rparr>"
       example_pandas 738888]
  by (simp add: df_empty_def)

text \<open>
  Claim C9. The claim is that \<open>calculate_streak\<close> returns a non-negative integer on
  every input. The code does not: line 63 reads \<open>.dt\<close> outside any \<open>try\<close>, so when
  \<open>pd.to_datetime\<close> returns the timestamp column without a datetime type (pandas 2.2 on
  timestamps with different UTC offsets), \<open>AttributeError\<close> leaves the function. The
  log view of lines 229 to 233 has the same accessor inside its \<open>try\<close>.
\<close>

theorem calculate_streak_raises_on_object_column:
  "to_datetime object_pandas mixed_offsets_column ErrorsCoerce =
       Inr [Text ''2024-01-02 09:00:00+01:00'', NaN, Text ''2024-01-03 09:00:00+02:00'']
   \<and> calculate_streak object_pandas 738888 (example_store ''timestamp'' mixed_offsets_column) =
       Inl (Exn AttributeError ''Can only use .dt accessor with datetimelike values'')"
proof (intro conjI)
  show "to_datetime object_pandas mixed_offsets_column ErrorsCoerce =
       Inr [Text ''2024-01-02 09:00:00+01:00'', NaN, Text ''2024-01-03 09:00:00+02:00'']"
    by simp
  show "calculate_streak object_pandas 738888 (example_store ''timestamp'' mixed_offsets_column) =
       Inl (Exn AttributeError ''Can only use .dt accessor with datetimelike values'')"
    by (simp add: calculate_streak_def streak_read_def df_empty_def streak_frame_def
        streak_resolve_def streak_parse_def getitem_def setitem_def dropna_def select_rows_def
        streak_dates_def dt_date_def)
qed

text \<open>
  This is the only way \<open>calculate_streak\<close> raises: on every other input it returns a
  non-negative integer.
\<close>

lemma calculate_streak_outcomes:
  "(\<exists>ms n. calculate_streak p today s = Inr (ms, n) \<and> 0 \<le> n)
   \<or> (calculate_streak p today s =
         Inl (Exn AttributeError ''Can only use .dt accessor with datetimelike values'')
      \<and> (\<exists>df name col parsed. read_csv s = Returns df \<and> streak_resolve p df = Next name
            \<and> map_of (columns df) name = Some col
            \<and> to_datetime p col ErrorsCoerce = Inr parsed \<and> \<not> list_all datetimelike parsed))"
proof (cases "streak_read s")
  case (Raise e)
  then show ?thesis by (simp add: streak_read_no_raise)
next
  case (Return ms r)
  with streak_read_return [OF Return] show ?thesis by (simp add: calculate_streak_def)
next
  case (Next df)
  then have rd: "read_csv s = Returns df" by (simp add: streak_read_next)
  have c: "calculate_streak p today s = streak_frame p today df"
    using Next by (simp add: calculate_streak_def)
  show ?thesis
  proof (cases "streak_resolve p df")
    case (Raise e)
    then show ?thesis by (simp add: streak_resolve_no_raise)
  next
    case (Return ms r)
    with streak_resolve_return [OF Return] c show ?thesis
      by (simp add: streak_frame_def)
  next
    case name: (Next name)
    from streak_resolve_column [OF name] obtain col where
      col: "map_of (columns df) name = Some col" by blast
    show ?thesis
    proof (cases "to_datetime p col ErrorsCoerce")
      case (Inl e)
      with c streak_frame_raised [OF name col Inl, of today] show ?thesis by simp
    next
      case (Inr parsed)
      show ?thesis
      proof (cases "list_all datetimelike parsed")
        case True
        with c streak_frame_converted [OF name col Inr, of today]
          current_streak_bounds [of today "List.map_filter cell_date parsed"]
        show ?thesis by simp
      next
        case False
        with c streak_frame_converted [OF name col Inr, of today] rd name col Inr
        show ?thesis by auto
      qed
    qed
  qed
qed

text \<open>
  Claim C10. The two copies of the resolution and parsing stages agree: on every
  frame both resolve the same column or both fail, neither raises, both parse to the
  same frame or both return early, and both read the same dates from it.
\<close>

theorem resolution_and_parsing_agree:
  "(streak_resolve p df = Next name \<longleftrightarrow> heatmap_resolve p df = Next name)
   \<and> ((\<exists>ms. streak_resolve p df = Return ms 0) \<longleftrightarrow> (\<exists>ms. heatmap_resolve p df = Return ms None))
   \<and> streak_resolve p df \<noteq> Raise e \<and> heatmap_resolve p df \<noteq> Raise e
   \<and> (streak_parse p name df = Next df' \<longleftrightarrow> heatmap_parse p name df = Next df')
   \<and> ((\<exists>ms. streak_parse p name df = Return ms 0) \<longleftrightarrow> (\<exists>ms. heatmap_parse p name df = Return ms None))
   \<and> streak_dates df' = heatmap_dates df'
   \<and> (streak_resolve p df = Next name \<and> streak_parse p name df = Next df'
        \<and> streak_dates df' = Inr ds \<longrightarrow>
      heatmap_resolve p df = Next name \<and> heatmap_parse p name df = Next df'
        \<and> (\<exists>ds'. heatmap_dates df' = Inr ds' \<and> mset ds' = mset ds))"
proof (intro conjI)
  show "streak_resolve p df = Next name \<longleftrightarrow> heatmap_resolve p df = Next name"
    by (rule resolve_same)
  show "(\<exists>ms. streak_resolve p df = Return ms 0) \<longleftrightarrow> (\<exists>ms. heatmap_resolve p df = Return ms None)"
    by (rule resolve_fail_same)
  show "streak_resolve p df \<noteq> Raise e" by (rule streak_resolve_no_raise)
  show "heatmap_resolve p df \<noteq> Raise e" by (rule heatmap_resolve_no_raise)
  show "streak_parse p name df = Next df' \<longleftrightarrow> heatmap_parse p name df = Next df'"
    by (rule parse_same)
  show "(\<exists>ms. streak_parse p name df = Return ms 0) \<longleftrightarrow> (\<exists>ms. heatmap_parse p name df = Return ms None)"
    by (auto simp: streak_parse_def heatmap_parse_def split: sum.splits if_splits)
  show "streak_dates df' = heatmap_dates df'"
    by (rule dates_same)
  show "streak_resolve p df = Next name \<and> streak_parse p name df = Next df'
        \<and> streak_dates df' = Inr ds \<longrightarrow>
      heatmap_resolve p df = Next name \<and> heatmap_parse p name df = Next df'
        \<and> (\<exists>ds'. heatmap_dates df' = Inr ds' \<and> mset ds' = mset ds)"
    using resolve_same [of p df name] parse_same [of p name df df'] dates_same [of df']
    by simp
qed

theorem resolution_and_parsing_agree_witness:
  "heatmap_resolve example_pandas
      \<lparr>index = 4, columns = [(''timestamp'', plain_column)]\<rparr>
     = Next ''timestamp''
   \<and> (\<exists>df'. streak_parse example_pandas ''timestamp''
        \<lparr>index = 4, columns = [(''timestamp'', plain_column)]\<rparr> = Next df'
      \<and> heatmap_parse example_pandas ''timestamp''
        \<lparr>index = 4, columns = [(''timestamp'', plain_column)]\<rparr> = Next df'
      \<and> heatmap_dates df' = Inr [738888, 738887, 738888]
      \<and> streak_dates df' = Inr [738888, 738887, 738888])"
proof -
  let ?df = "\<lparr>index = 4, columns = [(''timestamp'', plain_column)]\<rparr>"
  let ?df' = "\<lparr>index = 3,
      columns = [(''timestamp'', [Text ''2024-01-03 09:00:00'', Text ''2024-01-02 18:30:00'',
                                 Text ''2024-01-03 21:15:00'']),
                 (''parsed_timestamp'', [Stamp \<lparr>ts_date = 738888, ts_time = 32400\<rparr>,
                                         Stamp \<lparr>ts_date = 738887, ts_time = 66600\<rparr>,
                                         Stamp \<lparr>ts_date = 738888, ts_time = 76500\<rparr>])]\<rparr>"
  have a: "streak_resolve example_pandas ?df = Next ''timestamp''"
    by (simp add: streak_resolve_def)
  have b: "streak_parse example_pandas ''timestamp'' ?df = Next ?df'"
    by (simp add: streak_parse_def getitem_def setitem_def dropna_def select_rows_def df_empty_def)
  have c: "streak_dates ?df' = Inr [738888, 738887, 738888]"
    by (simp add: streak_dates_def getitem_def dt_date_def)
  from a b c resolution_and_parsing_agree [of example_pandas ?df "''timestamp''" _ ?df']
  show ?thesis by auto
qed

end
